theory Spec2Isabelle
  imports Main "HOL-Library.Word"
begin

unbundle bit_operations_syntax

section \<open>The generated header as a declaration tree\<close>

text \<open>
  \<^verbatim>\<open>Wwise_IDs.h\<close> holds no function: it is a tree of namespaces whose leaves are
  declarations of the form
  \<^verbatim>\<open>static const AkUniqueID PLAY_MUSIC = 2932040671U;\<close>.
  A leaf is kept token by token: its qualifiers, the name of its type, its identifier and
  the decimal literal that initialises it (a natural number, as it is written).
\<close>

datatype qualifier = Static | Const

datatype decl =
    Var "qualifier list" string string nat
  | Namespace string "decl list"

text \<open>
  Modelled from the spec: \<^verbatim>\<open>AkUniqueID\<close> is declared in
  \<^verbatim>\<open>AK/SoundEngine/Common/AkTypes.h\<close>, which the header includes and which is not
  part of the sources at hand; the spec gives every leaf the type \<^verbatim>\<open>uint32\<close>.
\<close>

type_synonym AkUniqueID = "32 word"

text \<open>The value a constant holds: its initialiser converted to the declared type.\<close>

definition stored :: "nat \<Rightarrow> AkUniqueID" where
  "stored v = word_of_nat v"

subsection \<open>The table, line by line\<close>

definition EVENTS :: decl where
  "EVENTS = Namespace ''EVENTS''
    [ Var [Static, Const] ''AkUniqueID'' ''PAUSE_DOORKNOCK'' 1900919716,
      Var [Static, Const] ''AkUniqueID'' ''PLAY_CALIBRATION'' 9035486,
      Var [Static, Const] ''AkUniqueID'' ''PLAY_DOOR_OPEN'' 1660008929,
      Var [Static, Const] ''AkUniqueID'' ''PLAY_DOORKNOCK'' 543223178,
      Var [Static, Const] ''AkUniqueID'' ''PLAY_E_FOOTSTEPS_WETDIRT'' 3953117089,
      Var [Static, Const] ''AkUniqueID'' ''PLAY_ENEMY_DETECT'' 643576792,
      Var [Static, Const] ''AkUniqueID'' ''PLAY_ENEMY_ENTRY'' 192556355,
      Var [Static, Const] ''AkUniqueID'' ''PLAY_ENEMYBREATH'' 1738249236,
      Var [Static, Const] ''AkUniqueID'' ''PLAY_LEVER'' 3196500978,
      Var [Static, Const] ''AkUniqueID'' ''PLAY_MUSIC'' 2932040671,
      Var [Static, Const] ''AkUniqueID'' ''PLAY_OUTRO'' 431014199,
      Var [Static, Const] ''AkUniqueID'' ''PLAY_P_FOOTSTEPS'' 1896114910 ]"

definition STATES :: decl where
  "STATES = Namespace ''STATES''
    [ Namespace ''AFFECTED_STATES''
        [ Var [Static, Const] ''AkUniqueID'' ''GROUP'' 2719039974,
          Namespace ''STATE''
            [ Var [Static, Const] ''AkUniqueID'' ''EXCITE'' 2286778635,
              Var [Static, Const] ''AkUniqueID'' ''MODERATE'' 1747842238,
              Var [Static, Const] ''AkUniqueID'' ''NONE'' 748895195,
              Var [Static, Const] ''AkUniqueID'' ''RELAX'' 3551080421 ] ] ]"

definition SWITCHES :: decl where
  "SWITCHES = Namespace ''SWITCHES''
    [ Namespace ''P_FOOTSTEP''
        [ Var [Static, Const] ''AkUniqueID'' ''GROUP'' 3806491964,
          Namespace ''SWITCH''
            [ Var [Static, Const] ''AkUniqueID'' ''DIRT'' 2195636714,
              Var [Static, Const] ''AkUniqueID'' ''WOOD'' 2058049674 ] ] ]"

definition BANKS :: decl where
  "BANKS = Namespace ''BANKS''
    [ Var [Static, Const] ''AkUniqueID'' ''INIT'' 1355168291,
      Var [Static, Const] ''AkUniqueID'' ''MAIN'' 3161908922 ]"

definition BUSSES :: decl where
  "BUSSES = Namespace ''BUSSES''
    [ Var [Static, Const] ''AkUniqueID'' ''MASTER_AUDIO_BUS'' 3803692087 ]"

definition AUDIO_DEVICES :: decl where
  "AUDIO_DEVICES = Namespace ''AUDIO_DEVICES''
    [ Var [Static, Const] ''AkUniqueID'' ''NO_OUTPUT'' 2317455096,
      Var [Static, Const] ''AkUniqueID'' ''SYSTEM'' 3859886410 ]"

definition AK :: decl where
  "AK = Namespace ''AK'' [EVENTS, STATES, SWITCHES, BANKS, BUSSES, AUDIO_DEVICES]"

subsection \<open>Reading the tree\<close>

fun decl_name :: "decl \<Rightarrow> string" where
  "decl_name (Var q t n v) = n"
| "decl_name (Namespace n ds) = n"

fun members :: "decl \<Rightarrow> decl list" where
  "members (Var q t n v) = []"
| "members (Namespace n ds) = ds"

fun is_Var :: "decl \<Rightarrow> bool" where
  "is_Var (Var q t n v) = True"
| "is_Var (Namespace n ds) = False"

text \<open>
  Every leaf of a tree, in the order of the file, with its qualified name
  (\<^verbatim>\<open>AK::EVENTS::PLAY_MUSIC\<close> is \<open>[''AK'', ''EVENTS'', ''PLAY_MUSIC'']\<close>).
\<close>

fun constants :: "decl \<Rightarrow> (string list \<times> decl) list" where
  "constants (Var q t n v) = [([n], Var q t n v)]"
| "constants (Namespace n ds) =
     map (\<lambda>(p, d). (n # p, d)) (concat (map constants ds))"

fun qualifiers :: "decl \<Rightarrow> qualifier list" where
  "qualifiers (Var q t n v) = q"
| "qualifiers (Namespace n ds) = []"

fun type_name :: "decl \<Rightarrow> string" where
  "type_name (Var q t n v) = t"
| "type_name (Namespace n ds) = []"

fun initialiser :: "decl \<Rightarrow> nat" where
  "initialiser (Var q t n v) = v"
| "initialiser (Namespace n ds) = 0"

text \<open>The 32-bit values of the table, in the order of the file.\<close>

definition ids :: "decl \<Rightarrow> AkUniqueID list" where
  "ids t = map (\<lambda>(p, d). stored (initialiser d)) (constants t)"

subsection \<open>The shape of the table\<close>

text \<open>
  A flat category declares constants only. A group of a nested category declares the
  constant \<^verbatim>\<open>GROUP\<close> and then one inner namespace (\<^verbatim>\<open>STATE\<close> or
  \<^verbatim>\<open>SWITCH\<close>) that declares constants only.
\<close>

definition flat_category :: "decl \<Rightarrow> bool" where
  "flat_category c = (\<not> is_Var c \<and> list_all is_Var (members c))"

fun is_group :: "string \<Rightarrow> decl \<Rightarrow> bool" where
  "is_group inner (Namespace g [Var q t n v, Namespace i vs]) =
     (n = ''GROUP'' \<and> i = inner \<and> list_all is_Var vs)"
| "is_group inner d = False"

definition nested_category :: "string \<Rightarrow> decl \<Rightarrow> bool" where
  "nested_category inner c = (\<not> is_Var c \<and> list_all (is_group inner) (members c))"

subsection \<open>Named identifier entries\<close>

text \<open>
  The data model of the spec: an entry has a category, a name and an id. The constant of
  a flat category (and of a \<^verbatim>\<open>STATE\<close> or \<^verbatim>\<open>SWITCH\<close> namespace) is named by
  its identifier; the constant \<^verbatim>\<open>GROUP\<close> is the id of the group that encloses it,
  whose name is the name of that namespace.
\<close>

datatype category =
  Event | State_Group | State_Value | Switch_Group | Switch_Value | Bank | Bus | Audio_Device

record entry =
  category :: category
  name :: string
  id' :: AkUniqueID

definition flat :: "category \<Rightarrow> decl \<Rightarrow> entry list" where
  "flat c d =
     [\<lparr>category = c, name = n, id' = stored v\<rparr>. Var q t n v \<leftarrow> members d]"

definition group_id :: "category \<Rightarrow> decl \<Rightarrow> entry list" where
  "group_id c g =
     [\<lparr>category = c, name = decl_name g, id' = stored v\<rparr>.
        Var q t n v \<leftarrow> members g, n = ''GROUP'']"

definition group_values :: "category \<Rightarrow> string \<Rightarrow> decl \<Rightarrow> entry list" where
  "group_values c inner g =
     concat [flat c s. s \<leftarrow> members g, \<not> is_Var s, decl_name s = inner]"

definition category_entries :: "decl \<Rightarrow> entry list" where
  "category_entries c =
     (if decl_name c = ''EVENTS'' then flat Event c
      else if decl_name c = ''STATES'' then
        concat (map (\<lambda>g. group_id State_Group g @ group_values State_Value ''STATE'' g)
                    (members c))
      else if decl_name c = ''SWITCHES'' then
        concat (map (\<lambda>g. group_id Switch_Group g @ group_values Switch_Value ''SWITCH'' g)
                    (members c))
      else if decl_name c = ''BANKS'' then flat Bank c
      else if decl_name c = ''BUSSES'' then flat Bus c
      else if decl_name c = ''AUDIO_DEVICES'' then flat Audio_Device c
      else [])"

definition entries :: "decl \<Rightarrow> entry list" where
  "entries t = concat (map category_entries (members t))"

subsection \<open>Referring to a constant\<close>

text \<open>
  Modelled from the spec: the code that uses the table is not part of the sources at hand.
  The spec gives it one operation, the static lookup \<^verbatim>\<open>name \<rightarrow> id\<close>, "a plain
  constant reference", which fails only for "a name that no longer exists in the table".
  A reference is a qualified name; it is resolved from the root through the namespaces,
  and the first declaration that matches is taken.
\<close>

fun resolve :: "decl \<Rightarrow> string list \<Rightarrow> decl option"
  and resolve_in :: "decl list \<Rightarrow> string list \<Rightarrow> decl option" where
  "resolve (Var q t n v) p = (if p = [n] then Some (Var q t n v) else None)"
| "resolve (Namespace n ds) [] = None"
| "resolve (Namespace n ds) (m # p) = (if m = n then resolve_in ds p else None)"
| "resolve_in [] p = None"
| "resolve_in (d # ds) p =
     (case resolve d p of Some x \<Rightarrow> Some x | None \<Rightarrow> resolve_in ds p)"

datatype failure = Unresolved | Read_only

definition lookup :: "decl \<Rightarrow> string list \<Rightarrow> failure + AkUniqueID" where
  "lookup t p =
     (case resolve t p of None \<Rightarrow> Inl Unresolved | Some d \<Rightarrow> Inr (stored (initialiser d)))"

text \<open>
  Modelled from the spec: "entries are immutable once generated" and reading has "no side
  effect". What a user of the table can attempt on one of its constants is a read or an
  assignment. A read returns the value and the table as it was. An assignment to an object
  declared \<^verbatim>\<open>const\<close> is refused and the table stays as it was; only an object
  without that qualifier would take the new value.
\<close>

datatype access = Read "string list" | Assign "string list" nat

fun assign :: "string list \<Rightarrow> nat \<Rightarrow> decl \<Rightarrow> decl"
  and assign_in :: "string list \<Rightarrow> nat \<Rightarrow> decl list \<Rightarrow> decl list" where
  "assign p w (Var q t n v) = (if p = [n] then Var q t n w else Var q t n v)"
| "assign [] w (Namespace n ds) = Namespace n ds"
| "assign (m # p) w (Namespace n ds) =
     (if m = n then Namespace n (assign_in p w ds) else Namespace n ds)"
| "assign_in p w [] = []"
| "assign_in p w (d # ds) =
     (case resolve d p of Some x \<Rightarrow> assign p w d # ds | None \<Rightarrow> d # assign_in p w ds)"

fun exec :: "access \<Rightarrow> decl \<Rightarrow> (failure + AkUniqueID) \<times> decl" where
  "exec (Read p) t = (lookup t p, t)"
| "exec (Assign p w) t =
     (case resolve t p of
        None \<Rightarrow> (Inl Unresolved, t)
      | Some d \<Rightarrow>
          if Const \<in> set (qualifiers d) then (Inl Read_only, t)
          else (Inr (stored w), assign p w t))"

subsection \<open>The hash behind the ids\<close>

text \<open>
  The header does not hold the hash that produced its values, and the spec does not name
  it. The function below is the 32-bit FNV-1 hash of the lower-cased name, which the
  audio middleware documents for its short ids. It is kept apart from the table and serves
  as a cross-check of how the names of the entries are read.
\<close>

definition to_lower :: "char \<Rightarrow> nat" where
  "to_lower c =
     (if 65 \<le> (of_char c :: nat) \<and> (of_char c :: nat) \<le> 90 then of_char c + 32
      else of_char c)"

fun fnv1 :: "32 word \<Rightarrow> string \<Rightarrow> 32 word" where
  "fnv1 h [] = h"
| "fnv1 h (c # cs) = fnv1 ((h * 16777619) XOR word_of_nat (to_lower c)) cs"

definition short_id :: "string \<Rightarrow> AkUniqueID" where
  "short_id s = fnv1 2166136261 s"

section \<open>Properties of the table\<close>

lemmas table_defs =
  AK_def EVENTS_def STATES_def SWITCHES_def BANKS_def BUSSES_def AUDIO_DEVICES_def

lemmas entry_defs =
  entries_def category_entries_def flat_def group_id_def group_values_def

subsection \<open>The two views of the table agree\<close>

text \<open>
  Reading the tree as entries loses no constant: the ids of the entries are the values of
  the leaves, in the order of the file.
\<close>

lemma entries_AK_ids: "map id' (entries AK) = ids AK"
  by (simp add: table_defs entry_defs ids_def)


lemma constants_AK_const:
  "\<forall>(p, d) \<in> set (constants AK). Const \<in> set (qualifiers d)"
  by (simp add: table_defs)

text \<open>Whatever a qualified name resolves to is a leaf of the tree, under that name.\<close>

lemma resolve_is_constant:
  "resolve d p = Some x \<Longrightarrow> (p, x) \<in> set (constants d)"
  "resolve_in ds p = Some x \<Longrightarrow> \<exists>d \<in> set ds. (p, x) \<in> set (constants d)"
proof (induction d p and ds p rule: resolve_resolve_in.induct)
  case (1 q t n v p)
  then show ?case by (simp split: if_splits)
next
  case (2 n ds)
  then show ?case by simp
next
  case (3 n ds m p)
  then show ?case by (force split: if_splits)
next
  case (4 p)
  then show ?case by simp
next
  case (5 d ds p)
  then show ?case by (auto split: option.splits)
qed

text \<open>
  The assignment of the model is not idle: on an object that is not \<^verbatim>\<open>const\<close> it
  changes the tree.
\<close>

lemma assign_takes_effect_without_const:
  "exec (Assign [''X'', ''Y''] 3) (Namespace ''X'' [Var [Static] ''AkUniqueID'' ''Y'' 0]) =
     (Inr 3, Namespace ''X'' [Var [Static] ''AkUniqueID'' ''Y'' 3])"
  by (simp add: stored_def)

subsection \<open>Ids and names\<close>

text \<open>
  The ids are the FNV-1 hashes of the names as the entries carry them: the identifier for
  a constant of a flat category or of a group's values, the name of the enclosing
  namespace for a constant \<^verbatim>\<open>GROUP\<close>. The bus is the one exception: its id is the
  hash of the authored name, which has spaces where the identifier has underscores.
\<close>

lemma ids_are_short_ids:
  "\<forall>e \<in> set (entries AK). name e \<noteq> ''MASTER_AUDIO_BUS'' \<longrightarrow> id' e = short_id (name e)"
  by (simp add: table_defs entry_defs stored_def short_id_def to_lower_def)

lemma bus_id_is_short_id_of_authored_name:
  "short_id ''Master Audio Bus'' = 3803692087"
  "short_id ''MASTER_AUDIO_BUS'' \<noteq> 3803692087"
  by (simp_all add: short_id_def to_lower_def)

text \<open>
  The identifier \<^verbatim>\<open>GROUP\<close> is therefore not the name of an entry: it occurs once
  in every group, each time with the id of that group.
\<close>

lemma GROUP_constants_differ:
  "lookup AK [''AK'', ''STATES'', ''AFFECTED_STATES'', ''GROUP''] = Inr 2719039974"
  "lookup AK [''AK'', ''SWITCHES'', ''P_FOOTSTEP'', ''GROUP''] = Inr 3806491964"
  by (simp_all add: table_defs lookup_def stored_def)



text \<open>
  C2. Within a category the names are pairwise distinct: among the entries of any one of
  the eight categories of the data model, and among the values of each group of
  \<^verbatim>\<open>STATES\<close> and of each group of \<^verbatim>\<open>SWITCHES\<close>.
\<close>

theorem names_unique_within_category:
  "(\<forall>c. distinct (map name (filter (\<lambda>e. category e = c) (entries AK)))) \<and>
   (\<forall>g \<in> set (members STATES).
      distinct (map name (group_values State_Value ''STATE'' g))) \<and>
   (\<forall>g \<in> set (members SWITCHES).
      distinct (map name (group_values Switch_Value ''SWITCH'' g)))"
proof (intro conjI allI)
  fix c
  show "distinct (map name (filter (\<lambda>e. category e = c) (entries AK)))"
    by (cases c) (simp_all add: table_defs entry_defs)
next
  show "\<forall>g \<in> set (members STATES).
          distinct (map name (group_values State_Value ''STATE'' g))"
    by (simp add: table_defs entry_defs)
next
  show "\<forall>g \<in> set (members SWITCHES).
          distinct (map name (group_values Switch_Value ''SWITCH'' g))"
    by (simp add: table_defs entry_defs)
qed

theorem names_unique_within_category_witness:
  "distinct (map name (group_values State_Value ''STATE''
     (Namespace ''AFFECTED_STATES''
        [ Var [Static, Const] ''AkUniqueID'' ''GROUP'' 2719039974,
          Namespace ''STATE''
            [ Var [Static, Const] ''AkUniqueID'' ''EXCITE'' 2286778635,
              Var [Static, Const] ''AkUniqueID'' ''MODERATE'' 1747842238,
              Var [Static, Const] ''AkUniqueID'' ''NONE'' 748895195,
              Var [Static, Const] ''AkUniqueID'' ''RELAX'' 3551080421 ] ])))
   \<and> map name (group_values State_Value ''STATE''
     (Namespace ''AFFECTED_STATES''
        [ Var [Static, Const] ''AkUniqueID'' ''GROUP'' 2719039974,
          Namespace ''STATE''
            [ Var [Static, Const] ''AkUniqueID'' ''EXCITE'' 2286778635,
              Var [Static, Const] ''AkUniqueID'' ''MODERATE'' 1747842238,
              Var [Static, Const] ''AkUniqueID'' ''NONE'' 748895195,
              Var [Static, Const] ''AkUniqueID'' ''RELAX'' 3551080421 ] ]))
     = [''EXCITE'', ''MODERATE'', ''NONE'', ''RELAX'']"
proof -
  have m: "Namespace ''AFFECTED_STATES''
        [ Var [Static, Const] ''AkUniqueID'' ''GROUP'' 2719039974,
          Namespace ''STATE''
            [ Var [Static, Const] ''AkUniqueID'' ''EXCITE'' 2286778635,
              Var [Static, Const] ''AkUniqueID'' ''MODERATE'' 1747842238,
              Var [Static, Const] ''AkUniqueID'' ''NONE'' 748895195,
              Var [Static, Const] ''AkUniqueID'' ''RELAX'' 3551080421 ] ]
      \<in> set (members STATES)"
    by (simp add: STATES_def)
  from names_unique_within_category have
    "\<forall>g \<in> set (members STATES).
       distinct (map name (group_values State_Value ''STATE'' g))"
    by blast
  from bspec [OF this m] show ?thesis
    by (simp add: entry_defs)
qed

subsection \<open>Shape\<close>

text \<open>
  C3. The namespace \<^verbatim>\<open>AK\<close> holds exactly the six categories \<^verbatim>\<open>EVENTS\<close>,
  \<^verbatim>\<open>STATES\<close>, \<^verbatim>\<open>SWITCHES\<close>, \<^verbatim>\<open>BANKS\<close>, \<^verbatim>\<open>BUSSES\<close> and
  \<^verbatim>\<open>AUDIO_DEVICES\<close>, in this order. \<^verbatim>\<open>STATES\<close> and \<^verbatim>\<open>SWITCHES\<close> are
  nested (every group holds the id \<^verbatim>\<open>GROUP\<close> and one id for each value); the other
  four are flat lists of named ids.
\<close>

theorem table_shape:
  "map (\<lambda>c. (decl_name c, flat_category c, nested_category ''STATE'' c,
              nested_category ''SWITCH'' c)) (members AK) =
     [(''EVENTS'', True, False, False),
      (''STATES'', False, True, False),
      (''SWITCHES'', False, False, True),
      (''BANKS'', True, False, False),
      (''BUSSES'', True, False, False),
      (''AUDIO_DEVICES'', True, False, False)]"
  by (simp add: table_defs flat_category_def nested_category_def)

subsection \<open>Values\<close>

text \<open>
  C4. Every leaf is a constant of type \<^verbatim>\<open>AkUniqueID\<close> whose initialiser lies between
  0 and 2^32 - 1, so that the 32-bit value it holds is the number that is written.
\<close>

theorem ids_fit_uint32:
  "\<forall>(p, d) \<in> set (constants AK).
     type_name d = ''AkUniqueID'' \<and> 0 \<le> initialiser d \<and> initialiser d \<le> 2 ^ 32 - 1
     \<and> unat (stored (initialiser d)) = initialiser d"
  by (simp add: table_defs stored_def)

theorem ids_fit_uint32_witness:
  "(3953117089::nat) \<le> 2 ^ 32 - 1 \<and> unat (stored 3953117089) = 3953117089"
proof -
  have m: "([''AK'', ''EVENTS'', ''PLAY_E_FOOTSTEPS_WETDIRT''],
            Var [Static, Const] ''AkUniqueID'' ''PLAY_E_FOOTSTEPS_WETDIRT'' 3953117089)
           \<in> set (constants AK)"
    by (simp add: table_defs)
  from bspec [OF ids_fit_uint32 m] show ?thesis by simp
qed



text \<open>C10. No constant of the table is 0, neither as a leaf nor as the id of an entry.\<close>

theorem ids_nonzero: "0 \<notin> set (ids AK) \<and> 0 \<notin> id' ` set (entries AK)"
  by (simp add: table_defs entry_defs ids_def stored_def)

subsection \<open>Lookup\<close>

text \<open>
  C5. A reference resolves exactly when its name is in the table: the qualified name of
  every constant looks up to the value of that constant, and every other name is
  unresolved. Lookup has no further outcome.
\<close>

theorem lookup_exact:
  "(\<forall>(p, d) \<in> set (constants AK). lookup AK p = Inr (stored (initialiser d))) \<and>
   (\<forall>p. p \<notin> fst ` set (constants AK) \<longrightarrow> lookup AK p = Inl Unresolved)"
proof (intro conjI allI impI)
  show "\<forall>(p, d) \<in> set (constants AK). lookup AK p = Inr (stored (initialiser d))"
    by (simp add: table_defs lookup_def)
next
  fix p
  assume absent: "p \<notin> fst ` set (constants AK)"
  have "resolve AK p = None"
  proof (cases "resolve AK p")
    case None
    then show ?thesis .
  next
    case (Some x)
    then have "(p, x) \<in> set (constants AK)" by (rule resolve_is_constant(1))
    then have "p \<in> fst ` set (constants AK)" by force
    with absent show ?thesis by simp
  qed
  then show "lookup AK p = Inl Unresolved" by (simp add: lookup_def)
qed

theorem lookup_exact_witness:
  "lookup AK [''AK'', ''SWITCHES'', ''P_FOOTSTEP'', ''SWITCH'', ''WOOD''] = Inr 2058049674 \<and>
   lookup AK [''AK'', ''SWITCHES'', ''P_FOOTSTEP'', ''WOOD''] = Inl Unresolved"
proof -
  have present: "([''AK'', ''SWITCHES'', ''P_FOOTSTEP'', ''SWITCH'', ''WOOD''],
      Var [Static, Const] ''AkUniqueID'' ''WOOD'' 2058049674) \<in> set (constants AK)"
    by (simp add: table_defs)
  have absent: "[''AK'', ''SWITCHES'', ''P_FOOTSTEP'', ''WOOD''] \<notin> fst ` set (constants AK)"
    by (simp add: table_defs)
  from lookup_exact present absent show ?thesis
    by (auto simp add: stored_def)
qed

text \<open>
  C6. No access changes the table: after a read, and after an attempted assignment to any
  name, the tree is the one before, and so are the name and the id of every entry.
\<close>

theorem access_leaves_table:
  "snd (exec a AK) = AK \<and> entries (snd (exec a AK)) = entries AK"
proof -
  have "snd (exec a AK) = AK"
  proof (cases a)
    case (Read p)
    then show ?thesis by simp
  next
    case (Assign p w)
    show ?thesis
    proof (cases "resolve AK p")
      case None
      with Assign show ?thesis by simp
    next
      case (Some d)
      then have "(p, d) \<in> set (constants AK)" by (rule resolve_is_constant(1))
      with constants_AK_const have "Const \<in> set (qualifiers d)" by blast
      with Assign Some show ?thesis by simp
    qed
  qed
  then show ?thesis by simp
qed

end
